theory Spec2Isabelle
  imports Complex_Main
begin

section \<open>JavaScript values and failures\<close>

text \<open>
  The bot is JavaScript on Node with a Postgres store. A function that throws (or an
  async function whose promise is rejected) returns \<open>Inl\<close> of the failure; the store is
  passed in and returned, as it stands when the function returns or throws.
\<close>

text \<open>
  The operation names of the registry (\<open>operations.PLUS\<close>, ...). The registry itself,
  \<open>operations.js\<close>, is not among the sources: its six names are the ones \<open>messages.js\<close>
  uses, taken to be six different strings; \<open>Unregistered s\<close> is any other string.
\<close>

datatype operation_name =
  PLUS | MINUS | EQUAL | SELF | RANDOM | REALLYRANDOM | Unregistered string

datatype js_error =
    TypeError                       \<comment> \<open>reading a property of \<open>undefined\<close>\<close>
  | IntegerOutOfRange               \<comment> \<open>Postgres rejects a value outside INTEGER\<close>
  | InvalidOperation operation_name \<comment> \<open>\<open>Error('Invalid operation: ' + operation)\<close>\<close>
  | CouldNotFindSet operation_name int
      \<comment> \<open>\<open>Error('Could not find set for ' + operation + ' (ran out of sets with '
          + setRandom + ' remaining)')\<close>\<close>

text \<open>Postgres \<open>INTEGER\<close> is a signed 32-bit column; a value outside it fails the query.\<close>

definition pg_integer :: "int \<Rightarrow> bool" where
  "pg_integer n \<longleftrightarrow> - 2147483648 \<le> n \<and> n \<le> 2147483647"

text \<open>
  The keys of both tables are \<open>CITEXT\<close>: compared without regard to case. The model
  folds the ASCII letters.
\<close>

definition lower_char :: "char \<Rightarrow> char" where
  "lower_char c =
     (if (65::nat) \<le> of_char c \<and> of_char c \<le> (90::nat)
      then char_of (of_char c + (32::nat)) else c)"

definition citext_eq :: "string \<Rightarrow> string \<Rightarrow> bool" where
  "citext_eq a b \<longleftrightarrow> map lower_char a = map lower_char b"

text \<open>
  Items and users reach the database spliced into the SQL text between single quotes
  (the source marks this with a TODO and takes its callers to pass texts that are safe to
  splice). A text with no quote in it is spliced as the literal it is; the functions
  below are the module for such texts.
\<close>

definition sql_literal :: "string \<Rightarrow> bool" where
  "sql_literal s \<longleftrightarrow> CHR 0x27 \<notin> set s"

section \<open>The points module: the scores table\<close>

text \<open>
  \<open>CREATE TABLE IF NOT EXISTS scores (item CITEXT PRIMARY KEY, score INTEGER)\<close>: a row
  is an item and one score. A table that has not been created yet is \<open>None\<close>.
\<close>

record score_row =
  row_item :: string
  row_score :: int

type_synonym scores_table = "score_row list option"

definition create_scores :: "scores_table \<Rightarrow> score_row list" where
  "create_scores db = (case db of None \<Rightarrow> [] | Some rows \<Rightarrow> rows)"

text \<open>The operation is the character spliced into the SQL text: \<open>'+'\<close> or \<open>'-'\<close>.\<close>

datatype operation = Plus | Minus

definition delta :: "operation \<Rightarrow> int" where
  "delta operation = (case operation of Plus \<Rightarrow> 1 | Minus \<Rightarrow> - 1)"

text \<open>
  \<open>INSERT INTO scores VALUES (item, op 1) ON CONFLICT (item) DO UPDATE SET
  score = scores.score op 1\<close>, one statement: the row of the item gets its score moved by
  one, and an item with no row gets the row \<open>(item, op 1)\<close>.
\<close>

fun upsert_score :: "string \<Rightarrow> int \<Rightarrow> score_row list \<Rightarrow> js_error + score_row list" where
  "upsert_score it d [] = Inr [\<lparr>row_item = it, row_score = d\<rparr>]"
| "upsert_score it d (r # rows) =
     (if citext_eq (row_item r) it
      then (if pg_integer (row_score r + d) then Inr (r\<lparr>row_score := row_score r + d\<rparr> # rows)
            else Inl IntegerOutOfRange)
      else (case upsert_score it d rows of
              Inl e \<Rightarrow> Inl e
            | Inr rows' \<Rightarrow> Inr (r # rows')))"

text \<open>\<open>SELECT score FROM scores WHERE item = ...\<close>\<close>

definition select_score :: "string \<Rightarrow> score_row list \<Rightarrow> score_row list" where
  "select_score it rows = filter (\<lambda>r. citext_eq (row_item r) it) rows"

text \<open>\<open>dbSelect.rows[0].score\<close>: a \<open>TypeError\<close> when no row came back.\<close>

definition first_score :: "score_row list \<Rightarrow> js_error + int" where
  "first_score rows = (case rows of [] \<Rightarrow> Inl TypeError | r # _ \<Rightarrow> Inr (row_score r))"

text \<open>
  \<open>updateScore(item, operation)\<close>: create the table, upsert, select, return the score.
  The function has two formal parameters; a third actual argument is dropped.
\<close>

definition updateScore :: "string \<Rightarrow> operation \<Rightarrow> scores_table \<Rightarrow> (js_error + int) \<times> scores_table" where
  "updateScore it operation db =
     (let rows = create_scores db in
      case upsert_score it (delta operation) rows of
        Inl e \<Rightarrow> (Inl e, Some rows)
      | Inr rows' \<Rightarrow> (first_score (select_score it rows'), Some rows'))"

text \<open>\<open>getScore(item, operation)\<close>: create the table, select, return the score.\<close>

definition getScore :: "string \<Rightarrow> scores_table \<Rightarrow> (js_error + int) \<times> scores_table" where
  "getScore it db =
     (let rows = create_scores db in (first_score (select_score it rows), Some rows))"

text \<open>\<open>n\<close> calls of \<open>updateScore(item, op)\<close> one after the other, each awaited.\<close>

fun updateScore_times :: "nat \<Rightarrow> string \<Rightarrow> operation \<Rightarrow> scores_table \<Rightarrow> (js_error + int) list \<times> scores_table" where
  "updateScore_times 0 it operation db = ([], db)"
| "updateScore_times (Suc n) it operation db =
     (let (res, db') = updateScore_times n it operation db;
          (r, db'') = updateScore it operation db'
      in (res @ [r], db''))"

section \<open>The points module: the user tracker\<close>

text \<open>
  \<open>CREATE TABLE IF NOT EXISTS usertracker (theuser CITEXT PRIMARY KEY, operations INTEGER,
  ts INTEGER)\<close>: per acting user, the operations counted in the current window and the
  second (of the epoch) at which the window began.
\<close>

record tracker_row =
  theuser :: string
  operations :: int
  ts :: int

type_synonym tracker_table = "tracker_row list option"

definition create_usertracker :: "tracker_table \<Rightarrow> tracker_row list" where
  "create_usertracker db = (case db of None \<Rightarrow> [] | Some rows \<Rightarrow> rows)"

text \<open>\<open>SELECT * FROM usertracker WHERE theuser = ...\<close>\<close>

definition select_user :: "string \<Rightarrow> tracker_row list \<Rightarrow> tracker_row list" where
  "select_user user rows = filter (\<lambda>r. citext_eq (theuser r) user) rows"

definition row_ok :: "tracker_row \<Rightarrow> bool" where
  "row_ok r \<longleftrightarrow> pg_integer (operations r) \<and> pg_integer (ts r)"

text \<open>
  \<open>INSERT INTO usertracker VALUES (new) ON CONFLICT (theuser) DO UPDATE SET ...\<close>, one
  statement: the row of the user is changed by \<open>upd\<close>, and a user with no row gets the row
  \<open>new\<close>.
\<close>

fun upsert_user :: "tracker_row \<Rightarrow> (tracker_row \<Rightarrow> tracker_row) \<Rightarrow> tracker_row list \<Rightarrow> js_error + tracker_row list" where
  "upsert_user new upd [] = (if row_ok new then Inr [new] else Inl IntegerOutOfRange)"
| "upsert_user new upd (r # rows) =
     (if citext_eq (theuser r) (theuser new)
      then (if row_ok new \<and> row_ok (upd r) then Inr (upd r # rows) else Inl IntegerOutOfRange)
      else (case upsert_user new upd rows of
              Inl e \<Rightarrow> Inl e
            | Inr rows' \<Rightarrow> Inr (r # rows')))"

text \<open>
  \<open>MAX_OPS\<close> is \<open>process.env.MAX_OPS\<close>, a string or \<open>undefined\<close>; the comparison
  \<open>userOperations >= MAX_OPS\<close> converts it to a number. \<open>Some m\<close> is a setting that reads as
  the integer \<open>m\<close>; \<open>None\<close> is a variable that is unset or not a number, for which the
  comparison is false.
\<close>

definition ge_max :: "int \<Rightarrow> int option \<Rightarrow> bool" where
  "ge_max userOperations MAX_OPS = (case MAX_OPS of None \<Rightarrow> False | Some m \<Rightarrow> userOperations \<ge> m)"

text \<open>
  The part of \<open>checkCanUpdate\<close> after the row has been read: \<open>dbSelect\<close> are the rows of
  the last \<open>SELECT\<close>, \<open>now\<close> is \<open>Math.floor(new Date() / 1000)\<close>.
\<close>

definition check_decide :: "int option \<Rightarrow> int \<Rightarrow> string \<Rightarrow> tracker_row list \<Rightarrow> tracker_row list \<Rightarrow> (js_error + bool) \<times> tracker_table" where
  "check_decide MAX_OPS now user dbSelect rows =
     (case dbSelect of
        [] \<Rightarrow> (Inl TypeError, Some rows)
      | r # _ \<Rightarrow>
          (let userOperations = operations r; userTS = ts r in
           if now - userTS < 3600 then
             (if ge_max userOperations MAX_OPS then (Inr False, Some rows)
              else (case upsert_user \<lparr>theuser = user, operations = 1, ts = userTS\<rparr>
                           (\<lambda>r. r\<lparr>operations := userOperations + 1\<rparr>) rows of
                      Inl e \<Rightarrow> (Inl e, Some rows)
                    | Inr rows' \<Rightarrow> (Inr True, Some rows')))
           else (case upsert_user \<lparr>theuser = user, operations = 1, ts = now\<rparr>
                        (\<lambda>r. r\<lparr>operations := 1, ts := now\<rparr>) rows of
                   Inl e \<Rightarrow> (Inl e, Some rows)
                 | Inr rows' \<Rightarrow> (Inr True, Some rows'))))"

text \<open>
  \<open>checkCanUpdate(user)\<close>, run from its first statement to its return with nothing else
  touching the table in between. The clock is read once per evaluation (\<open>now\<close>): the
  evaluation is taken to finish within the second it began in. The function has one
  formal parameter; a second actual argument is dropped.
\<close>

definition checkCanUpdate :: "int option \<Rightarrow> int \<Rightarrow> string \<Rightarrow> tracker_table \<Rightarrow> (js_error + bool) \<times> tracker_table" where
  "checkCanUpdate MAX_OPS now user db =
     (let rows = create_usertracker db;
          dbSelect = select_user user rows in
      if length dbSelect < 1 then
        (case upsert_user \<lparr>theuser = user, operations = 0, ts = now\<rparr>
                (\<lambda>r. r\<lparr>operations := 0, ts := now\<rparr>) rows of
           Inl e \<Rightarrow> (Inl e, Some rows)
         | Inr rows' \<Rightarrow> check_decide MAX_OPS now user (select_user user rows') rows')
      else check_decide MAX_OPS now user dbSelect rows)"

text \<open>
  Evaluations for one user one after the other, each awaited, at the clock readings
  \<open>nows\<close>: the results in order and the table at the end.
\<close>

fun checkCanUpdate_seq :: "int option \<Rightarrow> int list \<Rightarrow> string \<Rightarrow> tracker_table \<Rightarrow> (js_error + bool) list \<times> tracker_table" where
  "checkCanUpdate_seq MAX_OPS [] user db = ([], db)"
| "checkCanUpdate_seq MAX_OPS (now # nows) user db =
     (let (r, db') = checkCanUpdate MAX_OPS now user db;
          (rs, db'') = checkCanUpdate_seq MAX_OPS nows user db'
      in (r # rs, db''))"

text \<open>The stored record of a user as the limiter reads it: the count and the window start.\<close>

definition tracker_record :: "string \<Rightarrow> tracker_table \<Rightarrow> (int \<times> int) option" where
  "tracker_record user db =
     (case select_user user (create_usertracker db) of
        [] \<Rightarrow> None
      | r # _ \<Rightarrow> Some (operations r, ts r))"

text \<open>The user has no record, or the window of the record began an hour or more before \<open>now\<close>.\<close>

definition window_over :: "int \<Rightarrow> string \<Rightarrow> tracker_table \<Rightarrow> bool" where
  "window_over now user db =
     (case tracker_record user db of None \<Rightarrow> True | Some (c, w) \<Rightarrow> 3600 \<le> now - w)"

section \<open>The messages module\<close>

record message_set =
  probability :: int
  set_strings :: "string list"    \<comment> \<open>the property \<open>set\<close>\<close>

definition shifty :: message_set where
  "shifty = \<lparr>probability = 1, set_strings = ['':shifty:'']\<rparr>"

definition plus_set :: "string list" where
  "plus_set =
    [''Congrats!'', ''Got it!'', ''Bravo.'', ''Nice work!'', ''Well done.'', ''Exquisite.'',
     ''Lovely.'', ''Superb.'', ''Classic!'', ''Oh well done.'', ''Charming.'', ''Noted.'',
     ''Well, well!'', ''Well played.'', ''Meow.'', ''Mmmmm...tacos.'', ''Delicious.'',
     '':taconyancat:'', '':businesscat:'', '':smile_cat:'', '':dance_pig:'',
     '':dance-carrot:'', '':dance-pickle:'', '':doge_dance:'', '':jalapeno_dance_pbj:'',
     '':dancing_penguin:'', '':burrito_dance:'', '':mario_luigi_dance:'', '':taco_dance:'',
     ''Om nom nom'', ''Aw yeah!'', ''Let's taco 'bout how awesome you are!'',
     ''If you don't like tacos, I'm nacho type'', ''Purr-fect!'', ''Purr-ty good!'',
     ''You've gotta be kitten me!'', '':smiley_cat:'', '':heart_eyes_cat:'',
     '':cookie: :cookie: COOOOKIES!!! Oh wait, sorry, wrong reference'',
     ''Was it a car or a cat I saw?'', ''A nut for a jar of tuna'', ''Never odd or even'']"

definition minus_set :: "string list" where
  "minus_set =
    [''Oh RLY?'', ''Oh, really?'', ''Oh :slightly_frowning_face:.'', ''I see.'', ''Ouch.'',
     ''Oh l'' @ [CHR 0xE0] @ '' l'' @ [CHR 0xE0] @ ''.'', ''Oh.'', ''Condolences.'',
     '':smirk_cat:'']"

definition equal_set :: "string list" where
  "equal_set = [''How is'', ''Why is'']"

definition self_set :: "string list" where
  "self_set = [''Hahahahahahaha no.'', ''Nope.'', ''No. Just no.'', ''Not cool!'']"

text \<open>\<open>messages[operation]\<close>: the sets of an operation, \<open>undefined\<close> for any other key.\<close>

definition messages :: "operation_name \<Rightarrow> message_set list option" where
  "messages operation =
     (case operation of
        PLUS \<Rightarrow> Some [\<lparr>probability = 100, set_strings = plus_set\<rparr>, shifty]
      | MINUS \<Rightarrow> Some [\<lparr>probability = 100, set_strings = minus_set\<rparr>, shifty]
      | EQUAL \<Rightarrow> Some [\<lparr>probability = 100, set_strings = equal_set\<rparr>, shifty]
      | SELF \<Rightarrow> Some [\<lparr>probability = 100, set_strings = self_set\<rparr>, shifty]
      | RANDOM \<Rightarrow> Some [\<lparr>probability = 100, set_strings = self_set\<rparr>, shifty]
      | REALLYRANDOM \<Rightarrow> Some [\<lparr>probability = 100, set_strings = self_set\<rparr>, shifty]
      | Unregistered s \<Rightarrow> None)"

text \<open>The \<open>switch\<close> on the operation: the format, or none in the \<open>default\<close> branch.\<close>

definition format_of :: "operation_name \<Rightarrow> string option" where
  "format_of operation =
     (case operation of
        MINUS \<Rightarrow> Some ''<message> *<item>* has <tempScore> :taco:<plural>. (<score> total)''
      | PLUS \<Rightarrow> Some ''<message> *<item>* has <tempScore> :taco:<plural>. (<score> total)''
      | SELF \<Rightarrow> Some ''<item> <message>''
      | EQUAL \<Rightarrow> Some ''<message> *<item>* currently at <score> :taco:<plural>.''
      | _ \<Rightarrow> None)"

text \<open>
  The second loop: the weight of each set is taken off \<open>setRandom\<close> in turn, and the first
  set that brings it below zero is chosen. The result is \<open>chosenSet\<close> (\<open>None\<close> for
  \<open>null\<close>) and what is left of \<open>setRandom\<close>.
\<close>

fun chooseSet :: "message_set list \<Rightarrow> int \<Rightarrow> string list option \<times> int" where
  "chooseSet [] setRandom = (None, setRandom)"
| "chooseSet (s # sets) setRandom =
     (if 0 > setRandom - probability s then (Some (set_strings s), setRandom - probability s)
      else chooseSet sets (setRandom - probability s))"

text \<open>\<open>chosenSet[random]\<close>; outside the array it is \<open>undefined\<close>, printed as such.\<close>

definition js_index :: "string list \<Rightarrow> int \<Rightarrow> string" where
  "js_index xs i = (if 0 \<le> i \<and> i < int (length xs) then xs ! nat i else ''undefined'')"

text \<open>
  \<open>Math.floor(Math.random() * max)\<close> with \<open>max = chosenSet.length - 1\<close>, for a draw
  \<open>r\<close> of \<open>Math.random()\<close>, and the string it selects.
\<close>

definition random_index :: "real \<Rightarrow> string list \<Rightarrow> int" where
  "random_index r chosenSet = \<lfloor>r * of_int (int (length chosenSet) - 1)\<rfloor>"

definition pick_message :: "real \<Rightarrow> string list \<Rightarrow> string" where
  "pick_message r chosenSet = js_index chosenSet (random_index r chosenSet)"

text \<open>\<open>s.replace(pat, rep)\<close> for a string pattern: the first occurrence, if any.\<close>

fun replace_first :: "string \<Rightarrow> string \<Rightarrow> string \<Rightarrow> string" where
  "replace_first pat rep [] = (if pat = [] then rep else [])"
| "replace_first pat rep (c # s) =
     (if take (length pat) (c # s) = pat then rep @ drop (length pat) (c # s)
      else c # replace_first pat rep s)"

text \<open>A number as \<open>replace\<close> prints it.\<close>

definition digit_char :: "nat \<Rightarrow> char" where
  "digit_char d = ''0123456789'' ! d"

function string_of_nat :: "nat \<Rightarrow> string" where
  "string_of_nat n =
     (if n < 10 then [digit_char n] else string_of_nat (n div 10) @ [digit_char (n mod 10)])"
  by pat_completeness auto
termination
  by (relation "measure id") auto

declare string_of_nat.simps [simp del]

definition string_of_int :: "int \<Rightarrow> string" where
  "string_of_int i = (if i < 0 then CHR ''-'' # string_of_nat (nat (- i)) else string_of_nat (nat i))"

text \<open>
  Modelled from the spec: \<open>helpers.isPlural\<close> and \<open>helpers.maybeLinkItem\<close>
  (\<open>helpers.js\<close> is not among the sources). The suffix is singular for a score of exactly
  1; an item that is a user of the platform is written as a mention, any other as it is.
  A user is told by the pattern the points module documents, \<open>/U[A-Z0-9]{8}/\<close>.
\<close>

definition isPlural :: "int \<Rightarrow> bool" where
  "isPlural number \<longleftrightarrow> number \<noteq> 1"

definition user_id_char :: "char \<Rightarrow> bool" where
  "user_id_char c \<longleftrightarrow>
     ((65::nat) \<le> of_char c \<and> of_char c \<le> (90::nat)) \<or> ((48::nat) \<le> of_char c \<and> of_char c \<le> (57::nat))"

fun isUser :: "string \<Rightarrow> bool" where
  "isUser [] = False"
| "isUser (c # s) =
     ((c = CHR ''U'' \<and> 8 \<le> length s \<and> list_all user_id_char (take 8 s)) \<or> isUser s)"

definition maybeLinkItem :: "string \<Rightarrow> string" where
  "maybeLinkItem item = (if isUser item then ''<@'' @ item @ ''>'' else item)"

text \<open>A parameter with the default \<open>= 0\<close>: \<open>None\<close> is an argument left out or \<open>undefined\<close>.\<close>

definition default0 :: "int option \<Rightarrow> int" where
  "default0 a = (case a of None \<Rightarrow> 0 | Some n \<Rightarrow> n)"

text \<open>
  \<open>getRandomMessage(operation, item, score = 0, tempScore = 0)\<close>. \<open>r1\<close> and \<open>r2\<close> are
  the two draws of \<open>Math.random()\<close>, in the order they are made. Replacement texts are
  put in as they are (no \<open>$\<close> pattern of \<open>replace\<close> is interpreted).
\<close>

definition getRandomMessage :: "operation_name \<Rightarrow> string \<Rightarrow> int option \<Rightarrow> int option \<Rightarrow> real \<Rightarrow> real \<Rightarrow> js_error + string" where
  "getRandomMessage operation item score_arg tempScore_arg r1 r2 =
     (let score = default0 score_arg; tempScore = default0 tempScore_arg in
      case format_of operation of
        None \<Rightarrow> Inl (InvalidOperation operation)
      | Some format \<Rightarrow>
          (case messages operation of
             None \<Rightarrow> Inl TypeError
           | Some messageSets \<Rightarrow>
               (let totalProbability = sum_list (map probability messageSets);
                    setRandom = \<lfloor>r1 * of_int totalProbability\<rfloor> in
                case chooseSet messageSets setRandom of
                  (None, remaining) \<Rightarrow> Inl (CouldNotFindSet operation remaining)
                | (Some chosenSet, remaining) \<Rightarrow>
                    (let plural = (if isPlural score then ''s'' else []);
                         message = pick_message r2 chosenSet in
                     Inr (replace_first ''<message>'' message
                           (replace_first ''<plural>'' plural
                             (replace_first ''<tempScore>'' (string_of_int tempScore)
                               (replace_first ''<score>'' (string_of_int score)
                                 (replace_first ''<item>'' (maybeLinkItem item) format)))))))))"

section \<open>The events module\<close>

text \<open>
  What the bot sends is a call of the Slack wrapper (\<open>slack.js\<close>, not among the sources):
  the calls are recorded in order, with their arguments.
\<close>

datatype slack_call =
    SendMessage string string                  \<comment> \<open>text, channel\<close>
  | SendThreadMessage string string string     \<comment> \<open>text, channel, timestamp of the parent\<close>
  | SendEphemeral string string string         \<comment> \<open>text, channel, user\<close>

record world =
  scores :: scores_table
  usertracker :: tracker_table
  sent :: "slack_call list"

text \<open>
  Modelled from the spec: \<open>operations.getOperationName\<close> (\<open>operations.js\<close> is not among
  the sources), the registry's mapping from a command symbol to its operation name.
\<close>

definition getOperationName :: "operation \<Rightarrow> operation_name" where
  "getOperationName operation = (case operation of Plus \<Rightarrow> PLUS | Minus \<Rightarrow> MINUS)"

text \<open>
  \<open>handleSelfPlus(user, channel)\<close>: a message of the \<open>SELF\<close> family, sent to the channel.
  It calls nothing of the points module.
\<close>

definition handleSelfPlus :: "real \<Rightarrow> real \<Rightarrow> string \<Rightarrow> string \<Rightarrow> world \<Rightarrow> (js_error + unit) \<times> world" where
  "handleSelfPlus r1 r2 u channel w =
     (case getRandomMessage SELF u None None r1 r2 of
        Inl e \<Rightarrow> (Inl e, w)
      | Inr message \<Rightarrow> (Inr (), w\<lparr>sent := sent w @ [SendMessage message channel]\<rparr>))"

text \<open>\<open>score[i]\<close> where \<open>score\<close> is a number: \<open>undefined\<close>.\<close>

definition number_index :: "int \<Rightarrow> nat \<Rightarrow> int option" where
  "number_index n i = None"

definition no_soup :: "string \<Rightarrow> string" where
  "no_soup userInit =
     ''No Soup for <@'' @ userInit @ ''>!'' @ [CHR 0x0A] @
     ''Sorry but you exceded your :taco: limit, check back tomorrow''"

text \<open>
  \<open>handlePlusMinus(item, operation, quantity, channel, userInit, ts)\<close>, run from its first
  statement to its return with nothing else touching the store in between. It hands
  \<open>quantity\<close> to \<open>checkCanUpdate\<close> and to \<open>updateScore\<close> as an extra argument, which
  neither function declares.
\<close>

definition handlePlusMinus :: "int option \<Rightarrow> int \<Rightarrow> real \<Rightarrow> real \<Rightarrow> string \<Rightarrow> operation \<Rightarrow> int \<Rightarrow> string \<Rightarrow> string \<Rightarrow> string \<Rightarrow> world \<Rightarrow> (js_error + unit) \<times> world" where
  "handlePlusMinus MAX_OPS now r1 r2 it operation qty channel userInit tstamp w =
     (case checkCanUpdate MAX_OPS now userInit (usertracker w) of
        (Inl e, tr) \<Rightarrow> (Inl e, w\<lparr>usertracker := tr\<rparr>)
      | (Inr False, tr) \<Rightarrow>
          (Inr (), w\<lparr>usertracker := tr, sent := sent w @ [SendMessage (no_soup userInit) channel]\<rparr>)
      | (Inr True, tr) \<Rightarrow>
          (case updateScore it operation (scores w) of
             (Inl e, sc) \<Rightarrow> (Inl e, w\<lparr>usertracker := tr, scores := sc\<rparr>)
           | (Inr score, sc) \<Rightarrow>
               (case getRandomMessage (getOperationName operation) it
                       (number_index score 0) (number_index score 1) r1 r2 of
                  Inl e \<Rightarrow> (Inl e, w\<lparr>usertracker := tr, scores := sc\<rparr>)
                | Inr message \<Rightarrow>
                    (Inr (), w\<lparr>usertracker := tr, scores := sc,
                               sent := sent w @ [SendThreadMessage message channel tstamp]\<rparr>))))"

text \<open>
  \<open>points.resetTempScores\<close>, as \<open>reset\<close> finds it. The points module exports
  \<open>retrieveTopScores\<close>, \<open>updateScore\<close>, \<open>randomScore\<close>, \<open>reallyRandomScore\<close>, \<open>getScore\<close>
  and \<open>checkCanUpdate\<close>, and nothing of that name: the property is \<open>undefined\<close>.
\<close>

definition points_resetTempScores :: "(world \<Rightarrow> (js_error + unit) \<times> world) option" where
  "points_resetTempScores = None"

text \<open>
  \<open>reset(event)\<close>, the handler of the \<open>reincarnate\<close> command, for the value
  \<open>resetTempScores\<close> of \<open>points.resetTempScores\<close>: it calls that value, awaits it and then
  sends its message to the channel of the event. Calling \<open>undefined\<close> throws a
  \<open>TypeError\<close>.
\<close>

definition reset :: "(world \<Rightarrow> (js_error + unit) \<times> world) option \<Rightarrow> string \<Rightarrow> world \<Rightarrow> (js_error + unit) \<times> world" where
  "reset resetTempScores channel w =
     (case resetTempScores of
        None \<Rightarrow> (Inl TypeError, w)
      | Some f \<Rightarrow>
          (case f w of
             (Inl e, w') \<Rightarrow> (Inl e, w')
           | (Inr u, w') \<Rightarrow>
               (Inr (), w'\<lparr>sent := sent w' @
                  [SendMessage ''TacoCat began another one of it's many lives.'' channel]\<rparr>)))"

text \<open>
  The message event, and one element of \<open>data\<close>, the list that
  \<open>helpers.extractPlusMinusEventData(event.text)\<close> returns (\<open>helpers.js\<close> is not among the
  sources, so the handler is modelled on any such list). A field is \<open>None\<close> when it is
  \<open>undefined\<close>.
\<close>

record event =
  ev_user :: string
  ev_channel :: string
  ev_ts :: string

record plusminus_data =
  item :: "string option"
  quantity :: "int option"
  cats :: "int option"

text \<open>\<open>! item\<close> and \<open>! quantity\<close>\<close>

definition falsy_string :: "string option \<Rightarrow> bool" where
  "falsy_string s = (case s of None \<Rightarrow> True | Some t \<Rightarrow> t = [])"

definition falsy_number :: "int option \<Rightarrow> bool" where
  "falsy_number n = (case n of None \<Rightarrow> True | Some k \<Rightarrow> k = 0)"

text \<open>\<open>cats > 0\<close>\<close>

definition positive :: "int option \<Rightarrow> bool" where
  "positive n = (case n of None \<Rightarrow> False | Some k \<Rightarrow> k > 0)"

text \<open>
  The handler calls \<open>handleSelfPlus\<close> and \<open>handlePlusMinus\<close> and does not await them; a
  call is recorded with its arguments, in the order the calls are made.
\<close>

datatype call =
    HandleSelfPlus string string
      \<comment> \<open>user, channel\<close>
  | HandlePlusMinus string operation int string string string
      \<comment> \<open>item, operation, quantity, channel, userInit, ts\<close>

text \<open>The body of the loop below its guard, for an element whose item and quantity are truthy.\<close>

definition dispatch :: "event \<Rightarrow> plusminus_data \<Rightarrow> call list" where
  "dispatch ev d =
     (case (item d, quantity d) of
        (Some it, Some q) \<Rightarrow>
          (if it = ev_user ev then [HandleSelfPlus (ev_user ev) (ev_channel ev)]
           else HandlePlusMinus it Plus q (ev_channel ev) (ev_user ev) (ev_ts ev) #
                (if positive (cats d) \<and> ev_user ev = ''ULJ7NNS8H''
                 then [HandlePlusMinus it Minus (default0 (cats d)) (ev_channel ev) (ev_user ev) (ev_ts ev)]
                 else []))
      | _ \<Rightarrow> [])"

text \<open>
  \<open>handlers.message(event)\<close>: what it returns, and the calls it has made by then.
  \<open>handleSelfPlus\<close> runs inside the loop; for a draw of the generator in its range it does
  not throw (\<open>handleSelfPlus_effect\<close> below), so the loop is not left through it.
\<close>

fun message :: "event \<Rightarrow> plusminus_data list \<Rightarrow> bool \<times> call list" where
  "message ev [] = (True, [])"
| "message ev (d # data) =
     (if falsy_string (item d) \<or> falsy_number (quantity d) then (False, [])
      else (let (result, calls) = message ev data in (result, dispatch ev d @ calls)))"

text \<open>
  An element that passes the guard of the loop, and the elements the loop gets to: those
  before the first one that does not pass.
\<close>

definition truthy :: "plusminus_data \<Rightarrow> bool" where
  "truthy d \<longleftrightarrow> \<not> falsy_string (item d) \<and> \<not> falsy_number (quantity d)"

definition processed :: "plusminus_data list \<Rightarrow> plusminus_data list" where
  "processed data = takeWhile truthy data"

text \<open>One recorded call, run on its own to its end.\<close>

definition run_call :: "int option \<Rightarrow> int \<Rightarrow> real \<Rightarrow> real \<Rightarrow> call \<Rightarrow> world \<Rightarrow> (js_error + unit) \<times> world" where
  "run_call MAX_OPS now r1 r2 c w =
     (case c of
        HandleSelfPlus u channel \<Rightarrow> handleSelfPlus r1 r2 u channel w
      | HandlePlusMinus it operation qty channel userInit tstamp \<Rightarrow>
          handlePlusMinus MAX_OPS now r1 r2 it operation qty channel userInit tstamp w)"

section \<open>Evaluations of the limiter that overlap\<close>

text \<open>
  \<open>checkCanUpdate\<close> is an async function: it gives way at each \<open>await\<close> of a query, and
  another evaluation may run its own queries there. Each query is one step; a step is
  the query together with the JavaScript that leads up to it. The positions of an
  evaluation: before \<open>CREATE TABLE\<close>, before the first \<open>SELECT\<close>, before the \<open>INSERT\<close> for a
  user with no row, before the second \<open>SELECT\<close>, holding the rows it has read, returned.
\<close>

datatype check_task =
    AtCreate
  | AtSelect
  | AtInsert
  | AtReselect
  | AtDecide "tracker_row list"
  | Returned "js_error + bool"

definition check_step :: "int option \<Rightarrow> int \<Rightarrow> string \<Rightarrow> check_task \<Rightarrow> tracker_table \<Rightarrow> check_task \<times> tracker_table" where
  "check_step MAX_OPS now user task db =
     (let rows = create_usertracker db in
      case task of
        AtCreate \<Rightarrow> (AtSelect, Some rows)
      | AtSelect \<Rightarrow>
          (let dbSelect = select_user user rows in
           if length dbSelect < 1 then (AtInsert, db) else (AtDecide dbSelect, db))
      | AtInsert \<Rightarrow>
          (case upsert_user \<lparr>theuser = user, operations = 0, ts = now\<rparr>
                  (\<lambda>r. r\<lparr>operations := 0, ts := now\<rparr>) rows of
             Inl e \<Rightarrow> (Returned (Inl e), Some rows)
           | Inr rows' \<Rightarrow> (AtReselect, Some rows'))
      | AtReselect \<Rightarrow> (AtDecide (select_user user rows), db)
      | AtDecide dbSelect \<Rightarrow>
          (let (r, db') = check_decide MAX_OPS now user dbSelect rows in (Returned r, db'))
      | Returned r \<Rightarrow> (Returned r, db))"

text \<open>One evaluation run alone: five steps take it to its return on either path.\<close>

definition check_alone :: "int option \<Rightarrow> int \<Rightarrow> string \<Rightarrow> tracker_table \<Rightarrow> check_task \<times> tracker_table" where
  "check_alone MAX_OPS now user db =
     ((\<lambda>(t, d). check_step MAX_OPS now user t d) ^^ 5) (AtCreate, db)"

text \<open>Two evaluations for one user, their steps taken in the order of a schedule.\<close>

datatype who = First | Second

fun interleave :: "int option \<Rightarrow> int \<Rightarrow> string \<Rightarrow> who list \<Rightarrow> check_task \<times> check_task \<times> tracker_table \<Rightarrow> check_task \<times> check_task \<times> tracker_table" where
  "interleave MAX_OPS now user [] st = st"
| "interleave MAX_OPS now user (First # sched) (a, b, db) =
     (let (a', db') = check_step MAX_OPS now user a db
      in interleave MAX_OPS now user sched (a', b, db'))"
| "interleave MAX_OPS now user (Second # sched) (a, b, db) =
     (let (b', db') = check_step MAX_OPS now user b db
      in interleave MAX_OPS now user sched (a, b', db'))"

section \<open>The scores table: repeated increments\<close>

lemma citext_eq_refl: "citext_eq a a"
  by (simp add: citext_eq_def)

lemma upsert_score_fresh:
  "select_score it rows = [] \<Longrightarrow>
   upsert_score it d rows = Inr (rows @ [\<lparr>row_item = it, row_score = d\<rparr>])"
  by (induction rows) (auto simp: select_score_def split: if_splits)

lemma upsert_score_last:
  "select_score it rows = [] \<Longrightarrow> pg_integer (s + d) \<Longrightarrow>
   upsert_score it d (rows @ [\<lparr>row_item = it, row_score = s\<rparr>]) =
     Inr (rows @ [\<lparr>row_item = it, row_score = s + d\<rparr>])"
  by (induction rows) (auto simp: select_score_def citext_eq_refl split: if_splits)

lemma select_score_last:
  "select_score it rows = [] \<Longrightarrow>
   select_score it (rows @ [\<lparr>row_item = it, row_score = s\<rparr>]) = [\<lparr>row_item = it, row_score = s\<rparr>]"
  by (simp add: select_score_def citext_eq_refl)

lemma updateScore_fresh:
  "select_score it (create_scores db) = [] \<Longrightarrow>
   updateScore it operation db =
     (Inr (delta operation),
      Some (create_scores db @ [\<lparr>row_item = it, row_score = delta operation\<rparr>]))"
  by (simp add: updateScore_def upsert_score_fresh select_score_last first_score_def)

lemma updateScore_last:
  "select_score it rows = [] \<Longrightarrow> pg_integer (s + delta operation) \<Longrightarrow>
   updateScore it operation (Some (rows @ [\<lparr>row_item = it, row_score = s\<rparr>])) =
     (Inr (s + delta operation),
      Some (rows @ [\<lparr>row_item = it, row_score = s + delta operation\<rparr>]))"
  by (simp add: updateScore_def create_scores_def upsert_score_last select_score_last
      first_score_def)

lemma updateScore_times_fresh:
  assumes fresh: "select_score it (create_scores db) = []"
  shows "int n \<le> 2147483647 \<Longrightarrow>
     updateScore_times n it Plus db =
       (map (\<lambda>k. Inr (int k)) [1..<Suc n],
        if n = 0 then db else Some (create_scores db @ [\<lparr>row_item = it, row_score = int n\<rparr>]))"
proof (induction n)
  case 0
  then show ?case by simp
next
  case (Suc n)
  then have IH: "updateScore_times n it Plus db =
     (map (\<lambda>k. Inr (int k)) [1..<Suc n],
      if n = 0 then db else Some (create_scores db @ [\<lparr>row_item = it, row_score = int n\<rparr>]))"
    by simp
  show ?case
  proof (cases "n = 0")
    case True
    then show ?thesis using IH fresh by (simp add: updateScore_fresh delta_def)
  next
    case False
    have "pg_integer (int n + delta Plus)"
      using Suc.prems by (simp add: pg_integer_def delta_def)
    then show ?thesis using IH fresh False
      by (simp add: updateScore_last delta_def)
  qed
qed

lemma getScore_last:
  "select_score it rows = [] \<Longrightarrow>
   getScore it (Some (rows @ [\<lparr>row_item = it, row_score = s\<rparr>])) =
     (Inr s, Some (rows @ [\<lparr>row_item = it, row_score = s\<rparr>]))"
  by (simp add: getScore_def create_scores_def select_score_last first_score_def)

text \<open>
  The one score the store keeps does count: from an item with no row, \<open>n\<close> calls of
  \<open>updateScore(item, '+')\<close> one after the other (\<open>1 \<le> n \<le> 2147483647\<close>, the item a
  text with no quote) return \<open>1, 2, ..., n\<close> and leave the one row \<open>(item, n)\<close> for the
  item, every other row as it was; \<open>getScore\<close> then reads \<open>n\<close>.
\<close>

lemma updateScore_times_plus:
  assumes "select_score it (create_scores db) = []" "0 < n" "int n \<le> 2147483647"
    and "sql_literal it"
  shows "updateScore_times n it Plus db =
           (map (\<lambda>k. Inr (int k)) [1..<Suc n],
            Some (create_scores db @ [\<lparr>row_item = it, row_score = int n\<rparr>]))
       \<and> fst (getScore it (snd (updateScore_times n it Plus db))) = Inr (int n)"
proof -
  have run: "updateScore_times n it Plus db =
           (map (\<lambda>k. Inr (int k)) [1..<Suc n],
            Some (create_scores db @ [\<lparr>row_item = it, row_score = int n\<rparr>]))"
    using updateScore_times_fresh [OF assms(1,3)] assms(2) by simp
  have "fst (getScore it (snd (updateScore_times n it Plus db))) = Inr (int n)"
    using run getScore_last [OF assms(1)] by simp
  then show ?thesis using run by blast
qed

text \<open>
  C1: the store does not keep the pair of a total and an era score that its callers
  work with, and the era reset does not run. Three \<open>+\<close> on a fresh item return 1, 2, 3
  and leave the one score 3. \<open>handlePlusMinus\<close> reads the number \<open>updateScore\<close> returns as
  \<open>score[0]\<close> and \<open>score[1]\<close>, both \<open>undefined\<close>, so after the first \<open>+\<close> on \<open>U2\<close>, with the
  score 1 stored, the reply reports an era score of 0 and a total of 0. \<open>reset\<close> calls
  \<open>points.resetTempScores\<close>, which the points module does not have: it throws a
  \<open>TypeError\<close>, sends nothing and leaves every score as it was.
\<close>

theorem total_and_era_score_not_kept:
  "updateScore_times 3 ''U2'' Plus None =
     ([Inr 1, Inr 2, Inr 3], Some [\<lparr>row_item = ''U2'', row_score = 3\<rparr>])
   \<and> handlePlusMinus (Some 3) 1000 (1 / 2) (1 / 2) ''U2'' Plus 1 ''C1'' ''U1'' ''1.0''
        \<lparr>scores = None, usertracker = None, sent = []\<rparr>
     = (Inr (), \<lparr>scores = Some [\<lparr>row_item = ''U2'', row_score = 1\<rparr>],
                 usertracker = Some [\<lparr>theuser = ''U1'', operations = 1, ts = 1000\<rparr>],
                 sent = [SendThreadMessage '':dance_pig: *U2* has 0 :taco:s. (0 total)''
                           ''C1'' ''1.0'']\<rparr>)
   \<and> reset points_resetTempScores ''C1''
        \<lparr>scores = Some [\<lparr>row_item = ''U2'', row_score = 1\<rparr>],
          usertracker = Some [\<lparr>theuser = ''U1'', operations = 1, ts = 1000\<rparr>], sent = []\<rparr>
     = (Inl TypeError,
        \<lparr>scores = Some [\<lparr>row_item = ''U2'', row_score = 1\<rparr>],
          usertracker = Some [\<lparr>theuser = ''U1'', operations = 1, ts = 1000\<rparr>], sent = []\<rparr>)"
  by code_simp

section \<open>The limiter, one evaluation after the other\<close>

lemma upsert_user_absent:
  "select_user u rows = [] \<Longrightarrow> theuser new = u \<Longrightarrow> row_ok new \<Longrightarrow>
   upsert_user new upd rows = Inr (rows @ [new])"
  by (induction rows) (auto simp: select_user_def split: if_splits)

lemma select_user_absent:
  "select_user u rows = [] \<Longrightarrow> theuser new = u \<Longrightarrow> select_user u (rows @ [new]) = [new]"
  by (simp add: select_user_def citext_eq_refl)

lemma upsert_user_present:
  "select_user u rows = r # rest \<Longrightarrow> theuser new = u \<Longrightarrow> row_ok new \<Longrightarrow> row_ok (upd r) \<Longrightarrow>
   theuser (upd r) = theuser r \<Longrightarrow>
   \<exists>rows'. upsert_user new upd rows = Inr rows' \<and> select_user u rows' = upd r # rest"
proof (induction rows)
  case Nil
  then show ?case by (simp add: select_user_def)
next
  case (Cons a rows)
  show ?case
  proof (cases "citext_eq (theuser a) u")
    case True
    with Cons.prems show ?thesis by (auto simp: select_user_def)
  next
    case False
    with Cons.prems have "select_user u rows = r # rest" by (simp add: select_user_def)
    from Cons.IH [OF this Cons.prems(2-5)] obtain rows' where
      "upsert_user new upd rows = Inr rows'" "select_user u rows' = upd r # rest" by blast
    with False Cons.prems(2) show ?thesis by (auto simp: select_user_def)
  qed
qed

text \<open>A user with no record: the record is made with a count of 0, and the evaluation counts.\<close>

lemma check_fresh:
  assumes "tracker_record u db = None" "pg_integer now" "\<not> ge_max 0 M"
  shows "\<exists>db'. checkCanUpdate M now u db = (Inr True, db') \<and> tracker_record u db' = Some (1, now)"
proof -
  let ?rows = "create_usertracker db"
  let ?new = "\<lparr>theuser = u, operations = 0, ts = now\<rparr>"
  have sel: "select_user u ?rows = []"
    using assms(1) by (simp add: tracker_record_def split: list.splits)
  have ok: "row_ok ?new" using assms(2) by (simp add: row_ok_def pg_integer_def)
  have up: "upsert_user ?new (\<lambda>r. r\<lparr>operations := 0, ts := now\<rparr>) ?rows = Inr (?rows @ [?new])"
    using upsert_user_absent [OF sel _ ok] by simp
  have sel': "select_user u (?rows @ [?new]) = [?new]"
    using select_user_absent [OF sel] by simp
  have ok1: "row_ok \<lparr>theuser = u, operations = 1, ts = now\<rparr>"
      "row_ok (?new\<lparr>operations := 0 + 1\<rparr>)"
    using assms(2) by (simp_all add: row_ok_def pg_integer_def)
  obtain rows' where r:
      "upsert_user \<lparr>theuser = u, operations = 1, ts = now\<rparr>
         (\<lambda>r. r\<lparr>operations := 0 + 1\<rparr>) (?rows @ [?new]) = Inr rows'"
      "select_user u rows' = [?new\<lparr>operations := 0 + 1\<rparr>]"
    using upsert_user_present [OF sel' _ ok1(1), of "\<lambda>r. r\<lparr>operations := 0 + 1\<rparr>"] ok1(2)
    by auto
  show ?thesis
    using sel up sel' r assms(3)
    by (simp add: checkCanUpdate_def check_decide_def tracker_record_def create_usertracker_def)
qed

text \<open>A record whose window is over: the count restarts at 1 and the window at \<open>now\<close>.\<close>

lemma check_expired:
  assumes "tracker_record u db = Some (c, w)" "pg_integer now" "3600 \<le> now - w"
  shows "\<exists>db'. checkCanUpdate M now u db = (Inr True, db') \<and> tracker_record u db' = Some (1, now)"
proof -
  let ?rows = "create_usertracker db"
  obtain r rest where sel: "select_user u ?rows = r # rest"
      and rc: "operations r = c" "ts r = w"
    using assms(1) by (auto simp: tracker_record_def split: list.splits)
  have ok: "row_ok \<lparr>theuser = u, operations = 1, ts = now\<rparr>"
      "row_ok (r\<lparr>operations := 1, ts := now\<rparr>)"
    using assms(2) by (simp_all add: row_ok_def pg_integer_def)
  obtain rows' where r:
      "upsert_user \<lparr>theuser = u, operations = 1, ts = now\<rparr>
         (\<lambda>r. r\<lparr>operations := 1, ts := now\<rparr>) ?rows = Inr rows'"
      "select_user u rows' = r\<lparr>operations := 1, ts := now\<rparr> # rest"
    using upsert_user_present [OF sel _ ok(1), of "\<lambda>r. r\<lparr>operations := 1, ts := now\<rparr>"] ok(2)
    by auto
  show ?thesis
    using sel r rc assms(3)
    by (simp add: checkCanUpdate_def check_decide_def tracker_record_def create_usertracker_def)
qed

text \<open>A record inside its window and below the maximum: the count goes up by one.\<close>

lemma check_allow:
  assumes "tracker_record u db = Some (c, w)" "now - w < 3600" "\<not> ge_max c M"
    "pg_integer (c + 1)" "pg_integer w"
  shows "\<exists>db'. checkCanUpdate M now u db = (Inr True, db') \<and> tracker_record u db' = Some (c + 1, w)"
proof -
  let ?rows = "create_usertracker db"
  obtain r rest where sel: "select_user u ?rows = r # rest"
      and rc: "operations r = c" "ts r = w"
    using assms(1) by (auto simp: tracker_record_def split: list.splits)
  have ok: "row_ok \<lparr>theuser = u, operations = 1, ts = w\<rparr>" "row_ok (r\<lparr>operations := c + 1\<rparr>)"
    using assms(4,5) rc by (simp_all add: row_ok_def pg_integer_def)
  obtain rows' where r:
      "upsert_user \<lparr>theuser = u, operations = 1, ts = w\<rparr>
         (\<lambda>r. r\<lparr>operations := c + 1\<rparr>) ?rows = Inr rows'"
      "select_user u rows' = r\<lparr>operations := c + 1\<rparr> # rest"
    using upsert_user_present [OF sel _ ok(1), of "\<lambda>r. r\<lparr>operations := c + 1\<rparr>"] ok(2)
    by auto
  show ?thesis
    using sel r rc assms(2,3)
    by (simp add: checkCanUpdate_def check_decide_def tracker_record_def create_usertracker_def)
qed

text \<open>A record inside its window and at the maximum: denied, and nothing is written.\<close>

lemma check_deny:
  assumes "tracker_record u db = Some (c, w)" "now - w < 3600" "ge_max c M"
  shows "checkCanUpdate M now u db = (Inr False, Some (create_usertracker db))"
proof -
  obtain r rest where sel: "select_user u (create_usertracker db) = r # rest"
      and rc: "operations r = c" "ts r = w"
    using assms(1) by (auto simp: tracker_record_def split: list.splits)
  show ?thesis
    using sel rc assms(2,3)
    by (simp add: checkCanUpdate_def check_decide_def)
qed

lemma tracker_record_created:
  "tracker_record u (Some (create_usertracker db)) = tracker_record u db"
  by (simp add: tracker_record_def create_usertracker_def)

lemma check_first:
  assumes "window_over now u db" "pg_integer now" "\<not> ge_max 0 M"
  shows "\<exists>db'. checkCanUpdate M now u db = (Inr True, db') \<and> tracker_record u db' = Some (1, now)"
proof (cases "tracker_record u db")
  case None
  then show ?thesis using check_fresh assms by simp
next
  case (Some p)
  then obtain c w where "tracker_record u db = Some (c, w)" by (cases p) simp
  moreover have "3600 \<le> now - w" using assms(1) calculation by (simp add: window_over_def)
  ultimately show ?thesis using check_expired assms(2) by simp
qed

text \<open>
  C3: with \<open>MAX_OPS = 3\<close>, four evaluations for one user one after the other, the first at
  \<open>t1\<close> for a user with no record or with a record whose window is over, the other three
  less than 3600 seconds after \<open>t1\<close>, return allow, allow, allow, deny and leave the record
  \<open>(3, t1)\<close>; an evaluation at any \<open>t5\<close> at least 3600 seconds after the window start
  \<open>t1\<close> then returns allow and leaves the record \<open>(1, t5)\<close>. (The clock readings are
  seconds that fit the \<open>INTEGER\<close> column, the user a text with no quote.)
\<close>

theorem rate_limit_window:
  assumes "window_over t1 u db" "pg_integer t1"
    and "t2 - t1 < 3600" "t3 - t1 < 3600" "t4 - t1 < 3600"
    and "sql_literal u"
  shows "\<exists>db4. checkCanUpdate_seq (Some 3) [t1, t2, t3, t4] u db =
            ([Inr True, Inr True, Inr True, Inr False], db4)
          \<and> tracker_record u db4 = Some (3, t1)
          \<and> (\<forall>t5. pg_integer t5 \<and> 3600 \<le> t5 - t1 \<longrightarrow>
               (\<exists>db5. checkCanUpdate (Some 3) t5 u db4 = (Inr True, db5)
                     \<and> tracker_record u db5 = Some (1, t5)))"
proof -
  obtain db1 where s1: "checkCanUpdate (Some 3) t1 u db = (Inr True, db1)"
      and r1: "tracker_record u db1 = Some (1, t1)"
    using check_first [OF assms(1,2), of "Some 3"] by (auto simp: ge_max_def)
  obtain db2 where s2: "checkCanUpdate (Some 3) t2 u db1 = (Inr True, db2)"
      and r2: "tracker_record u db2 = Some (2, t1)"
    using check_allow [OF r1 assms(3), of "Some 3"] assms(2)
    by (auto simp: ge_max_def pg_integer_def)
  obtain db3 where s3: "checkCanUpdate (Some 3) t3 u db2 = (Inr True, db3)"
      and r3: "tracker_record u db3 = Some (3, t1)"
    using check_allow [OF r2 assms(4), of "Some 3"] assms(2)
    by (auto simp: ge_max_def pg_integer_def)
  have s4: "checkCanUpdate (Some 3) t4 u db3 = (Inr False, Some (create_usertracker db3))"
    using check_deny [OF r3 assms(5), of "Some 3"] by (simp add: ge_max_def)
  let ?db4 = "Some (create_usertracker db3)"
  have r4: "tracker_record u ?db4 = Some (3, t1)"
    using r3 by (simp add: tracker_record_created)
  have seq: "checkCanUpdate_seq (Some 3) [t1, t2, t3, t4] u db =
            ([Inr True, Inr True, Inr True, Inr False], ?db4)"
    by (simp add: s1 s2 s3 s4)
  have "\<exists>db5. checkCanUpdate (Some 3) t5 u ?db4 = (Inr True, db5)
                     \<and> tracker_record u db5 = Some (1, t5)"
    if "pg_integer t5" "3600 \<le> t5 - t1" for t5
    using check_expired [OF r4 that] .
  with seq r4 show ?thesis by blast
qed

theorem rate_limit_window_witness:
  "window_over 1000 ''U1'' None \<and> pg_integer 1000 \<and> sql_literal ''U1''
   \<and> (1001::int) - 1000 < 3600 \<and> (1002::int) - 1000 < 3600 \<and> (4599::int) - 1000 < 3600
   \<and> pg_integer 4600 \<and> (3600::int) \<le> 4600 - 1000
   \<and> (\<exists>db4. checkCanUpdate_seq (Some 3) [1000, 1001, 1002, 4599] ''U1'' None =
                ([Inr True, Inr True, Inr True, Inr False], db4)
            \<and> tracker_record ''U1'' db4 = Some (3, 1000)
            \<and> (\<exists>db5. checkCanUpdate (Some 3) 4600 ''U1'' db4 = (Inr True, db5)
                    \<and> tracker_record ''U1'' db5 = Some (1, 4600)))"
proof -
  have h1: "window_over 1000 ''U1'' None" by code_simp
  have h2: "pg_integer 1000" by (simp add: pg_integer_def)
  have h3: "(1001::int) - 1000 < 3600" "(1002::int) - 1000 < 3600" "(4599::int) - 1000 < 3600"
    by simp_all
  have h5: "pg_integer 4600 \<and> (3600::int) \<le> 4600 - 1000" by (simp add: pg_integer_def)
  have q: "sql_literal ''U1''" by code_simp
  from rate_limit_window [OF h1 h2 h3 q] obtain db4 where
      a: "checkCanUpdate_seq (Some 3) [1000, 1001, 1002, 4599] ''U1'' None =
            ([Inr True, Inr True, Inr True, Inr False], db4)"
      and b: "tracker_record ''U1'' db4 = Some (3, 1000)"
      and c: "\<forall>t5. pg_integer t5 \<and> 3600 \<le> t5 - 1000 \<longrightarrow>
               (\<exists>db5. checkCanUpdate (Some 3) t5 ''U1'' db4 = (Inr True, db5)
                     \<and> tracker_record ''U1'' db5 = Some (1, t5))"
    by blast
  from c h5 have "\<exists>db5. checkCanUpdate (Some 3) 4600 ''U1'' db4 = (Inr True, db5)
                     \<and> tracker_record ''U1'' db5 = Some (1, 4600)"
    by blast
  with a b h1 h2 h3 h5 q show ?thesis by blast
qed

section \<open>The composer: when it throws\<close>

lemma chooseSet_finds:
  "0 \<le> k \<Longrightarrow> k < sum_list (map probability sets) \<Longrightarrow>
   \<exists>c remaining. chooseSet sets k = (Some c, remaining)"
  by (induction sets arbitrary: k) auto

lemma floor_draw_bounds:
  fixes r :: real
  assumes "0 \<le> r" "r < 1" "0 < n"
  shows "0 \<le> \<lfloor>r * of_int n\<rfloor> \<and> \<lfloor>r * of_int n\<rfloor> < n"
proof -
  have "0 \<le> r * of_int n" using assms by simp
  moreover have "r * of_int n < of_int n" using assms by simp
  ultimately show ?thesis by (simp add: floor_less_iff)
qed

lemma total_probability:
  "messages operation = Some sets \<Longrightarrow> sum_list (map probability sets) = 101"
  by (cases operation) (auto simp: messages_def shifty_def)

lemma format_of_Some_iff:
  "(\<exists>f. format_of operation = Some f) \<longleftrightarrow> operation \<in> {PLUS, MINUS, SELF, EQUAL}"
  by (cases operation) (simp_all add: format_of_def)

lemma messages_supported:
  "operation \<in> {PLUS, MINUS, SELF, EQUAL} \<Longrightarrow> \<exists>sets. messages operation = Some sets"
  by (auto simp: messages_def)

lemma getRandomMessage_supported:
  assumes "operation \<in> {PLUS, MINUS, SELF, EQUAL}" "0 \<le> r1" "r1 < 1"
  shows "\<exists>m. getRandomMessage operation it s t r1 r2 = Inr m"
proof -
  obtain f where f: "format_of operation = Some f"
    using assms(1) format_of_Some_iff by blast
  obtain sets where sets: "messages operation = Some sets"
    using assms(1) messages_supported by blast
  have tot: "sum_list (map probability sets) = 101" using sets by (rule total_probability)
  have "0 \<le> \<lfloor>r1 * of_int 101\<rfloor> \<and> \<lfloor>r1 * of_int 101\<rfloor> < (101::int)"
    using floor_draw_bounds [OF assms(2,3), of 101] by simp
  then obtain c remaining where
      "chooseSet sets \<lfloor>r1 * of_int (sum_list (map probability sets))\<rfloor> = (Some c, remaining)"
    using chooseSet_finds [of "\<lfloor>r1 * of_int 101\<rfloor>" sets] tot by auto
  then show ?thesis using f sets
    by (simp add: getRandomMessage_def Let_def)
qed

lemma getRandomMessage_unsupported:
  assumes "operation \<notin> {PLUS, MINUS, SELF, EQUAL}"
  shows "getRandomMessage operation it s t r1 r2 = Inl (InvalidOperation operation)"
proof -
  have "format_of operation = None"
    using assms format_of_Some_iff [of operation] by (cases "format_of operation") auto
  then show ?thesis by (simp add: getRandomMessage_def Let_def)
qed

text \<open>
  C10: for a draw of the generator (a number from 0 up to, not including, 1),
  \<open>getRandomMessage\<close> throws exactly when the operation is none of plus, minus, self and
  equal; for the registry's random and really-random kinds it throws \<open>Invalid operation\<close>
  although \<open>messages\<close> has sets for both.
\<close>

theorem getRandomMessage_throws_iff:
  assumes "0 \<le> r1" "r1 < 1"
  shows "((\<exists>e. getRandomMessage operation it s t r1 r2 = Inl e)
            \<longleftrightarrow> operation \<notin> {PLUS, MINUS, SELF, EQUAL})
       \<and> getRandomMessage RANDOM it s t r1 r2 = Inl (InvalidOperation RANDOM)
       \<and> getRandomMessage REALLYRANDOM it s t r1 r2 = Inl (InvalidOperation REALLYRANDOM)
       \<and> messages RANDOM \<noteq> None \<and> messages REALLYRANDOM \<noteq> None"
proof -
  have "(\<exists>e. getRandomMessage operation it s t r1 r2 = Inl e)
          \<longleftrightarrow> operation \<notin> {PLUS, MINUS, SELF, EQUAL}"
  proof (cases "operation \<in> {PLUS, MINUS, SELF, EQUAL}")
    case True
    then obtain m where "getRandomMessage operation it s t r1 r2 = Inr m"
      using getRandomMessage_supported [OF _ assms] by blast
    with True show ?thesis by simp
  next
    case False
    then show ?thesis using getRandomMessage_unsupported by blast
  qed
  moreover have "getRandomMessage RANDOM it s t r1 r2 = Inl (InvalidOperation RANDOM)"
    by (rule getRandomMessage_unsupported) simp
  moreover have "getRandomMessage REALLYRANDOM it s t r1 r2 = Inl (InvalidOperation REALLYRANDOM)"
    by (rule getRandomMessage_unsupported) simp
  moreover have "messages RANDOM \<noteq> None \<and> messages REALLYRANDOM \<noteq> None"
    by (simp add: messages_def)
  ultimately show ?thesis by blast
qed

theorem getRandomMessage_throws_iff_witness:
  "(0::real) \<le> 1 / 2 \<and> (1 / 2::real) < 1
   \<and> getRandomMessage PLUS ''U12345678'' (Some 12) (Some 1) (1 / 2) (1 / 2)
       = Inr '':dance_pig: *<@U12345678>* has 1 :taco:s. (12 total)''
   \<and> \<not> (\<exists>e. getRandomMessage PLUS ''U12345678'' (Some 12) (Some 1) (1 / 2) (1 / 2) = Inl e)
   \<and> getRandomMessage RANDOM ''U12345678'' (Some 12) (Some 1) (1 / 2) (1 / 2)
       = Inl (InvalidOperation RANDOM)"
proof -
  have h: "(0::real) \<le> 1 / 2" "(1 / 2::real) < 1" by simp_all
  have v: "getRandomMessage PLUS ''U12345678'' (Some 12) (Some 1) (1 / 2) (1 / 2)
       = Inr '':dance_pig: *<@U12345678>* has 1 :taco:s. (12 total)''"
    by code_simp
  show ?thesis
    using h v getRandomMessage_throws_iff [OF h, of PLUS "''U12345678''" "Some 12" "Some 1" "1 / 2"]
    by simp
qed

section \<open>The scores table: reading an item that has no row\<close>

lemma getScore_rows_unchanged: "snd (getScore it db) = Some (create_scores db)"
  by (simp add: getScore_def Let_def)

text \<open>
  C2: for an item with no row (a text with no quote), \<open>getScore\<close> does not return a zero score and does not
  create the row: the \<open>SELECT\<close> comes back empty, \<open>dbSelect.rows[0].score\<close> throws a
  \<open>TypeError\<close>, and the rows of the table are as they were.
\<close>

theorem getScore_absent_throws:
  assumes "select_score it (create_scores db) = []" "sql_literal it"
  shows "getScore it db = (Inl TypeError, Some (create_scores db))"
  using assms by (simp add: getScore_def first_score_def)

theorem getScore_absent_throws_witness:
  "select_score ''never'' (create_scores (Some [\<lparr>row_item = ''bar'', row_score = 4\<rparr>])) = []
   \<and> sql_literal ''never''
   \<and> getScore ''never'' (Some [\<lparr>row_item = ''bar'', row_score = 4\<rparr>]) =
       (Inl TypeError, Some [\<lparr>row_item = ''bar'', row_score = 4\<rparr>])"
proof -
  have h: "select_score ''never'' (create_scores (Some [\<lparr>row_item = ''bar'', row_score = 4\<rparr>])) = []"
    by code_simp
  have q: "sql_literal ''never''" by code_simp
  show ?thesis using h q getScore_absent_throws [OF h q] by (simp add: create_scores_def)
qed

section \<open>The message handler\<close>

lemma message_processed:
  "message ev data = (processed data = data, concat (map (dispatch ev) (processed data)))"
  by (induction data) (auto simp: processed_def truthy_def split: prod.splits)

lemma processed_append_truthy:
  "list_all truthy pre \<Longrightarrow> processed (pre @ rest) = pre @ processed rest"
  by (induction pre) (auto simp: processed_def)

lemma processed_truthy: "list_all truthy pre \<Longrightarrow> processed pre = pre"
  by (induction pre) (auto simp: processed_def)

text \<open>
  C9: when the elements \<open>pre\<close> all pass the guard and the next element \<open>d\<close> has a falsy
  item or a falsy quantity, the handler returns \<open>false\<close> having made the calls for
  \<open>pre\<close> and no other: whatever follows \<open>d\<close> is never looked at.
\<close>

theorem first_falsy_entry_stops:
  assumes "list_all truthy pre" "falsy_string (item d) \<or> falsy_number (quantity d)"
  shows "message ev (pre @ d # post) = (False, concat (map (dispatch ev) pre))
       \<and> message ev pre = (True, concat (map (dispatch ev) pre))"
proof -
  have "\<not> truthy d" using assms(2) by (auto simp: truthy_def)
  then have "processed (d # post) = []" by (simp add: processed_def)
  then have "processed (pre @ d # post) = pre"
    using processed_append_truthy [OF assms(1), of "d # post"] by simp
  moreover have "processed pre = pre" using assms(1) by (rule processed_truthy)
  ultimately show ?thesis by (simp add: message_processed)
qed

theorem first_falsy_entry_stops_witness:
  "list_all truthy [\<lparr>item = Some ''U2'', quantity = Some 2, cats = Some 1\<rparr>,
                    \<lparr>item = Some ''U1'', quantity = Some 2, cats = None\<rparr>]
   \<and> (falsy_string (item \<lparr>item = Some ''U3'', quantity = Some 0, cats = None\<rparr>)
       \<or> falsy_number (quantity \<lparr>item = Some ''U3'', quantity = Some 0, cats = None\<rparr>))
   \<and> message \<lparr>ev_user = ''U1'', ev_channel = ''C1'', ev_ts = ''1.0''\<rparr>
       ([\<lparr>item = Some ''U2'', quantity = Some 2, cats = Some 1\<rparr>,
         \<lparr>item = Some ''U1'', quantity = Some 2, cats = None\<rparr>]
        @ \<lparr>item = Some ''U3'', quantity = Some 0, cats = None\<rparr>
        # [\<lparr>item = Some ''U4'', quantity = Some 2, cats = None\<rparr>])
     = (False, [HandlePlusMinus ''U2'' Plus 2 ''C1'' ''U1'' ''1.0'', HandleSelfPlus ''U1'' ''C1''])"
proof -
  have h1: "list_all truthy [\<lparr>item = Some ''U2'', quantity = Some 2, cats = Some 1\<rparr>,
                    \<lparr>item = Some ''U1'', quantity = Some 2, cats = None\<rparr>]"
    by code_simp
  have h2: "falsy_string (item \<lparr>item = Some ''U3'', quantity = Some 0, cats = None\<rparr>)
       \<or> falsy_number (quantity \<lparr>item = Some ''U3'', quantity = Some 0, cats = None\<rparr>)"
    by code_simp
  have c: "concat (map (dispatch \<lparr>ev_user = ''U1'', ev_channel = ''C1'', ev_ts = ''1.0''\<rparr>)
             [\<lparr>item = Some ''U2'', quantity = Some 2, cats = Some 1\<rparr>,
              \<lparr>item = Some ''U1'', quantity = Some 2, cats = None\<rparr>])
       = [HandlePlusMinus ''U2'' Plus 2 ''C1'' ''U1'' ''1.0'', HandleSelfPlus ''U1'' ''C1'']"
    by code_simp
  show ?thesis
    using h1 h2 c
      conjunct1 [OF first_falsy_entry_stops [OF h1 h2,
        of "\<lparr>ev_user = ''U1'', ev_channel = ''C1'', ev_ts = ''1.0''\<rparr>"
           "[\<lparr>item = Some ''U4'', quantity = Some 2, cats = None\<rparr>]"]]
    by simp
qed

lemma dispatch_self:
  "truthy d \<Longrightarrow> item d = Some (ev_user ev) \<Longrightarrow>
   dispatch ev d = [HandleSelfPlus (ev_user ev) (ev_channel ev)]"
  by (auto simp: dispatch_def truthy_def falsy_number_def split: option.splits)

lemma handleSelfPlus_effect:
  assumes "0 \<le> r1" "r1 < 1"
  shows "\<exists>m. getRandomMessage SELF u None None r1 r2 = Inr m
           \<and> handleSelfPlus r1 r2 u channel w =
               (Inr (), w\<lparr>sent := sent w @ [SendMessage m channel]\<rparr>)"
proof -
  obtain m where "getRandomMessage SELF u None None r1 r2 = Inr m"
    using getRandomMessage_supported [OF _ assms, of SELF] by blast
  then show ?thesis by (simp add: handleSelfPlus_def)
qed

text \<open>
  The guard \<open>item === event.user\<close> where it holds: an element \<open>d\<close> that passes the guard
  of the loop, as the elements before it do, whose item is character for character the
  acting user. The one call the handler makes for it is \<open>handleSelfPlus(user, channel)\<close>,
  between the calls for the elements before and after it. That call sends one message,
  the \<open>SELF\<close> text for the user, to the channel (for a draw of the generator from 0 up to,
  not including, 1) and leaves the scores table and the user tracker as they were.
\<close>

lemma self_target_exact_match:
  assumes "list_all truthy pre" "truthy d" "item d = Some (ev_user ev)" "0 \<le> r1" "r1 < 1"
  shows "snd (message ev (pre @ d # post)) =
           snd (message ev pre) @ HandleSelfPlus (ev_user ev) (ev_channel ev) # snd (message ev post)
       \<and> (\<exists>m. getRandomMessage SELF (ev_user ev) None None r1 r2 = Inr m
             \<and> run_call M now r1 r2 (HandleSelfPlus (ev_user ev) (ev_channel ev)) w =
                 (Inr (), w\<lparr>sent := sent w @ [SendMessage m (ev_channel ev)]\<rparr>))
       \<and> scores (snd (run_call M now r1 r2 (HandleSelfPlus (ev_user ev) (ev_channel ev)) w))
           = scores w
       \<and> usertracker (snd (run_call M now r1 r2 (HandleSelfPlus (ev_user ev) (ev_channel ev)) w))
           = usertracker w"
proof -
  have p: "processed (pre @ d # post) = pre @ d # processed post"
    using processed_append_truthy [OF assms(1), of "d # post"] assms(2)
    by (simp add: processed_def)
  have calls: "snd (message ev (pre @ d # post)) =
           snd (message ev pre) @ HandleSelfPlus (ev_user ev) (ev_channel ev) # snd (message ev post)"
    using p processed_truthy [OF assms(1)] dispatch_self [OF assms(2,3)]
    by (simp add: message_processed)
  obtain m where m: "getRandomMessage SELF (ev_user ev) None None r1 r2 = Inr m"
      "handleSelfPlus r1 r2 (ev_user ev) (ev_channel ev) w =
         (Inr (), w\<lparr>sent := sent w @ [SendMessage m (ev_channel ev)]\<rparr>)"
    using handleSelfPlus_effect [OF assms(4,5)] by blast
  have run: "run_call M now r1 r2 (HandleSelfPlus (ev_user ev) (ev_channel ev)) w =
                 (Inr (), w\<lparr>sent := sent w @ [SendMessage m (ev_channel ev)]\<rparr>)"
    using m(2) by (simp add: run_call_def)
  show ?thesis using calls m(1) run by simp
qed

lemma self_target_exact_match_example:
  "list_all truthy [\<lparr>item = Some ''U2'', quantity = Some 1, cats = None\<rparr>]
   \<and> truthy \<lparr>item = Some ''U12345678'', quantity = Some 1, cats = None\<rparr>
   \<and> item \<lparr>item = Some ''U12345678'', quantity = Some 1, cats = None\<rparr>
       = Some (ev_user \<lparr>ev_user = ''U12345678'', ev_channel = ''C1'', ev_ts = ''1.0''\<rparr>)
   \<and> (0::real) \<le> 1 / 2 \<and> (1 / 2::real) < 1
   \<and> snd (message \<lparr>ev_user = ''U12345678'', ev_channel = ''C1'', ev_ts = ''1.0''\<rparr>
        ([\<lparr>item = Some ''U2'', quantity = Some 1, cats = None\<rparr>]
         @ \<lparr>item = Some ''U12345678'', quantity = Some 1, cats = None\<rparr> # []))
       = [HandlePlusMinus ''U2'' Plus 1 ''C1'' ''U12345678'' ''1.0'',
          HandleSelfPlus ''U12345678'' ''C1'']
   \<and> run_call (Some 3) 1000 (1 / 2) (1 / 2) (HandleSelfPlus ''U12345678'' ''C1'')
        \<lparr>scores = None, usertracker = None, sent = []\<rparr>
       = (Inr (), \<lparr>scores = None, usertracker = None,
                   sent = [SendMessage ''<@U12345678> Nope.'' ''C1'']\<rparr>)"
proof -
  let ?ev = "\<lparr>ev_user = ''U12345678'', ev_channel = ''C1'', ev_ts = ''1.0''\<rparr>"
  let ?d = "\<lparr>item = Some ''U12345678'', quantity = Some 1, cats = None\<rparr>"
  let ?pre = "[\<lparr>item = Some ''U2'', quantity = Some 1, cats = None\<rparr>]"
  have h1: "list_all truthy ?pre" by code_simp
  have h2: "truthy ?d" by code_simp
  have h3: "item ?d = Some (ev_user ?ev)" by simp
  have h4: "(0::real) \<le> 1 / 2" "(1 / 2::real) < 1" by simp_all
  note t = self_target_exact_match [OF h1 h2 h3 h4, of "[]" "1 / 2" "Some 3" 1000
      "\<lparr>scores = None, usertracker = None, sent = []\<rparr>"]
  have pre: "snd (message ?ev ?pre) = [HandlePlusMinus ''U2'' Plus 1 ''C1'' ''U12345678'' ''1.0'']"
    by code_simp
  have a: "snd (message ?ev (?pre @ ?d # [])) =
       [HandlePlusMinus ''U2'' Plus 1 ''C1'' ''U12345678'' ''1.0'', HandleSelfPlus ''U12345678'' ''C1'']"
    using conjunct1 [OF t] pre by simp
  have v: "getRandomMessage SELF ''U12345678'' None None (1 / 2) (1 / 2) = Inr ''<@U12345678> Nope.''"
    by code_simp
  have b: "run_call (Some 3) 1000 (1 / 2) (1 / 2) (HandleSelfPlus ''U12345678'' ''C1'')
        \<lparr>scores = None, usertracker = None, sent = []\<rparr>
       = (Inr (), \<lparr>scores = None, usertracker = None,
                   sent = [SendMessage ''<@U12345678> Nope.'' ''C1'']\<rparr>)"
    using conjunct1 [OF conjunct2 [OF t]] v by auto
  show ?thesis using h1 h2 h3 h4 a b by blast
qed

text \<open>
  C4: a command whose item is the acting user in another case of letters is not taken
  for a self-target. The guard compares with \<open>===\<close>, while the store compares its
  \<open>CITEXT\<close> keys without regard to case: \<open>u12345678\<close> and \<open>U12345678\<close> are one item. For
  the item \<open>u12345678\<close> in a message of the user \<open>U12345678\<close> the handler calls
  \<open>handlePlusMinus\<close>, not \<open>handleSelfPlus\<close>; that call evaluates the limiter for the user
  and raises the user's own score from 5 to 6.
\<close>

theorem self_target_other_case_scores:
  "citext_eq ''u12345678'' ''U12345678''
   \<and> message \<lparr>ev_user = ''U12345678'', ev_channel = ''C1'', ev_ts = ''1.0''\<rparr>
       [\<lparr>item = Some ''u12345678'', quantity = Some 1, cats = None\<rparr>]
     = (True, [HandlePlusMinus ''u12345678'' Plus 1 ''C1'' ''U12345678'' ''1.0''])
   \<and> run_call (Some 3) 1000 (1 / 2) (1 / 2)
        (HandlePlusMinus ''u12345678'' Plus 1 ''C1'' ''U12345678'' ''1.0'')
        \<lparr>scores = Some [\<lparr>row_item = ''U12345678'', row_score = 5\<rparr>],
          usertracker = None, sent = []\<rparr>
     = (Inr (), \<lparr>scores = Some [\<lparr>row_item = ''U12345678'', row_score = 6\<rparr>],
                 usertracker = Some [\<lparr>theuser = ''U12345678'', operations = 1, ts = 1000\<rparr>],
                 sent = [SendThreadMessage '':dance_pig: *u12345678* has 0 :taco:s. (0 total)''
                           ''C1'' ''1.0'']\<rparr>)"
  by code_simp





section \<open>The composer: which string of a set is picked\<close>

lemma random_index_bounds:
  assumes "0 \<le> r" "r < 1" "2 \<le> length chosenSet"
  shows "0 \<le> random_index r chosenSet \<and> random_index r chosenSet < int (length chosenSet) - 1"
  using floor_draw_bounds [OF assms(1,2), of "int (length chosenSet) - 1"] assms(3)
  by (simp add: random_index_def)

text \<open>
  C6: the string is not picked uniformly from the chosen set. The index is
  \<open>Math.floor(Math.random() * (chosenSet.length - 1))\<close>, so for a set of two or more
  different strings it stays below the last index for every draw, and the last string
  of the set is never the one picked.
\<close>

theorem last_string_never_picked:
  assumes "0 \<le> r" "r < 1" "2 \<le> length chosenSet" "distinct chosenSet"
  shows "random_index r chosenSet < int (length chosenSet) - 1
       \<and> pick_message r chosenSet \<noteq> last chosenSet"
proof -
  let ?i = "random_index r chosenSet"
  have b: "0 \<le> ?i" "?i < int (length chosenSet) - 1"
    using random_index_bounds [OF assms(1-3)] by simp_all
  then have n: "nat ?i < length chosenSet" "nat ?i \<noteq> length chosenSet - 1" by linarith+
  have "pick_message r chosenSet = chosenSet ! nat ?i"
    using b by (simp add: pick_message_def js_index_def)
  moreover have "chosenSet \<noteq> []" using assms(3) by auto
  then have "last chosenSet = chosenSet ! (length chosenSet - 1)"
    by (rule last_conv_nth)
  moreover have "chosenSet ! nat ?i \<noteq> chosenSet ! (length chosenSet - 1)"
    using n assms(3,4) by (simp add: nth_eq_iff_index_eq)
  ultimately show ?thesis using b(2) by simp
qed

theorem last_string_never_picked_witness:
  "(0::real) \<le> 999 / 1000 \<and> (999 / 1000::real) < 1 \<and> 2 \<le> length plus_set \<and> distinct plus_set
   \<and> last plus_set = ''Never odd or even''
   \<and> pick_message (999 / 1000) plus_set = ''A nut for a jar of tuna''
   \<and> pick_message (999 / 1000) plus_set \<noteq> last plus_set"
proof -
  have h: "(0::real) \<le> 999 / 1000" "(999 / 1000::real) < 1" by simp_all
  have l: "2 \<le> length plus_set" by code_simp
  have d: "distinct plus_set" by code_simp
  have e: "last plus_set = ''Never odd or even''" by code_simp
  have p: "pick_message (999 / 1000) plus_set = ''A nut for a jar of tuna''" by code_simp
  show ?thesis
    using h l d e p conjunct2 [OF last_string_never_picked [OF h l d]] by blast
qed

section \<open>The limiter and the magnitude of an operation\<close>

text \<open>
  C7: \<open>handlePlusMinus\<close> for a quantity \<open>q1\<close> and for a quantity \<open>q2\<close>, all else equal, end
  the same: the same outcome, the same messages, the same tables. The user tracker it
  leaves is the one \<open>checkCanUpdate(userInit)\<close> leaves, which is given the user, the clock
  and the stored record and no quantity: one evaluation counts one operation.
\<close>

theorem magnitude_ignored:
  "handlePlusMinus M now r1 r2 it operation q1 channel userInit t w =
   handlePlusMinus M now r1 r2 it operation q2 channel userInit t w
   \<and> usertracker (snd (handlePlusMinus M now r1 r2 it operation q1 channel userInit t w)) =
       snd (checkCanUpdate M now userInit (usertracker w))"
  by (auto simp: handlePlusMinus_def split: prod.splits sum.splits bool.splits)

theorem magnitude_ignored_witness:
  "handlePlusMinus (Some 3) 1000 (1 / 2) (1 / 2) ''U2'' Plus 1 ''C1'' ''U1'' ''1.0''
     \<lparr>scores = None, usertracker = None, sent = []\<rparr> =
   handlePlusMinus (Some 3) 1000 (1 / 2) (1 / 2) ''U2'' Plus 5 ''C1'' ''U1'' ''1.0''
     \<lparr>scores = None, usertracker = None, sent = []\<rparr>
   \<and> usertracker (snd (handlePlusMinus (Some 3) 1000 (1 / 2) (1 / 2) ''U2'' Plus 5 ''C1'' ''U1'' ''1.0''
       \<lparr>scores = None, usertracker = None, sent = []\<rparr>))
     = Some [\<lparr>theuser = ''U1'', operations = 1, ts = 1000\<rparr>]"
proof -
  have c: "snd (checkCanUpdate (Some 3) 1000 ''U1'' None)
         = Some [\<lparr>theuser = ''U1'', operations = 1, ts = 1000\<rparr>]"
    by code_simp
  show ?thesis
    using c magnitude_ignored [of "Some 3" 1000 "1 / 2" "1 / 2" "''U2''" Plus 1 "''C1''" "''U1''"
        "''1.0''" "\<lparr>scores = None, usertracker = None, sent = []\<rparr>" 5]
      magnitude_ignored [of "Some 3" 1000 "1 / 2" "1 / 2" "''U2''" Plus 5 "''C1''" "''U1''"
        "''1.0''" "\<lparr>scores = None, usertracker = None, sent = []\<rparr>" 5]
    by simp
qed

section \<open>Two evaluations of the limiter at once\<close>

text \<open>The steps of one evaluation, taken with no other in between, are \<open>checkCanUpdate\<close>.\<close>

lemma check_alone_eq:
  "check_alone M now u db =
     (Returned (fst (checkCanUpdate M now u db)), snd (checkCanUpdate M now u db))"
  by (auto simp: check_alone_def eval_nat_numeral check_step_def checkCanUpdate_def Let_def
      create_usertracker_def split: sum.splits prod.splits option.splits)

text \<open>
  C8: the check and the increment are two queries with an \<open>await\<close> between them, not one
  step. With \<open>MAX_OPS = 3\<close> and the record \<open>(2, 1000)\<close> of the user, one slot is left at
  second 1010. Two evaluations that both make their \<open>SELECT\<close> before either writes both
  read the count 2, both write 3 and both return allow; the same two evaluations one
  after the other return allow and deny.
\<close>

theorem overlapping_checks_both_allowed:
  "interleave (Some 3) 1010 ''U1'' [First, First, Second, Second, First, Second]
     (AtCreate, AtCreate, Some [\<lparr>theuser = ''U1'', operations = 2, ts = 1000\<rparr>])
   = (Returned (Inr True), Returned (Inr True),
      Some [\<lparr>theuser = ''U1'', operations = 3, ts = 1000\<rparr>])
   \<and> checkCanUpdate_seq (Some 3) [1010, 1010] ''U1''
       (Some [\<lparr>theuser = ''U1'', operations = 2, ts = 1000\<rparr>])
     = ([Inr True, Inr False], Some [\<lparr>theuser = ''U1'', operations = 3, ts = 1000\<rparr>])"
  by code_simp

end
